theory Spec2Isabelle
  imports Main "HOL-Library.AList"
begin

section \<open>Form values\<close>

text \<open>
  A JavaScript number, kept in the shape the language's own number-to-string conversion
  works on: \<open>Finite neg s n\<close> is the number whose shortest decimal digit string is the
  decimal numeral of \<open>s\<close> and whose decimal point stands after the first \<open>n\<close> of these
  digits (so its magnitude is \<open>s * 10 ^ (n - k)\<close> for \<open>k\<close> digits); \<open>s = 0\<close> is zero, of
  either sign.
\<close>

datatype number = NaN | Infinity bool | Finite bool nat int

text \<open>
  \<open>FormValue = Date | string | number | boolean | string[] | null | undefined\<close>.
  A Date carries its time value: an integral number of milliseconds, or \<open>None\<close> for the
  NaN of an invalid date.
\<close>

datatype FormValue =
    VDate (getTime: "int option")
  | VString string
  | VNumber number
  | VBoolean bool
  | VArray (elements: "string list")
  | VNull
  | VUndefined

text \<open>The truthiness of a value, as \<open>!value\<close> and \<open>!!value\<close> read it.\<close>

fun ToBoolean :: "FormValue \<Rightarrow> bool" where
  "ToBoolean VUndefined = False"
| "ToBoolean VNull = False"
| "ToBoolean (VBoolean b) = b"
| "ToBoolean (VNumber NaN) = False"
| "ToBoolean (VNumber (Infinity neg)) = True"
| "ToBoolean (VNumber (Finite neg s n)) = (s \<noteq> 0)"
| "ToBoolean (VString s) = (s \<noteq> [])"
| "ToBoolean (VDate t) = True"
| "ToBoolean (VArray a) = True"

fun typeof :: "FormValue \<Rightarrow> string" where
  "typeof VUndefined = ''undefined''"
| "typeof VNull = ''object''"
| "typeof (VBoolean b) = ''boolean''"
| "typeof (VNumber n) = ''number''"
| "typeof (VString s) = ''string''"
| "typeof (VDate t) = ''object''"
| "typeof (VArray a) = ''object''"

fun isArray :: "FormValue \<Rightarrow> bool" where
  "isArray (VArray a) = True"
| "isArray v = False"

fun instanceof_Date :: "FormValue \<Rightarrow> bool" where
  "instanceof_Date (VDate t) = True"
| "instanceof_Date v = False"

subsection \<open>The string form of a number\<close>

definition digit :: "nat \<Rightarrow> char" where
  "digit d = ''0123456789'' ! d"

fun decimal :: "nat \<Rightarrow> string" where
  "decimal n = (if n < 10 then [digit n] else decimal (n div 10) @ [digit (n mod 10)])"

declare decimal.simps [simp del]

text \<open>
  The language's conversion of a number to a string: plain digits up to 21 integer
  digits, a decimal fraction down to six leading zeros, exponent notation otherwise.
\<close>

definition Number_toString :: "number \<Rightarrow> string" where
  "Number_toString x =
     (case x of
        NaN \<Rightarrow> ''NaN''
      | Infinity neg \<Rightarrow> (if neg then ''-Infinity'' else ''Infinity'')
      | Finite neg s n \<Rightarrow>
          if s = 0 then ''0''
          else
            (let ds = decimal s; k = int (length ds) in
             (if neg then ''-'' else '''') @
             (if k \<le> n \<and> n \<le> 21 then ds @ replicate (nat (n - k)) CHR ''0''
              else if 0 < n \<and> n \<le> 21 then take (nat n) ds @ ''.'' @ drop (nat n) ds
              else if - 6 < n \<and> n \<le> 0 then ''0.'' @ replicate (nat (- n)) CHR ''0'' @ ds
              else
                (let e = n - 1;
                     es = (if e < 0 then ''-'' else ''+'') @ decimal (nat \<bar>e\<bar>) in
                 if k = 1 then ds @ ''e'' @ es
                 else take 1 ds @ ''.'' @ drop 1 ds @ ''e'' @ es))))"

text \<open>
  \<open>String(value)\<close>. The text of a valid Date depends on the host's time zone and is left
  unspecified.
\<close>

fun join :: "string \<Rightarrow> string list \<Rightarrow> string" where
  "join sep [] = []"
| "join sep [x] = x"
| "join sep (x # y # ys) = x @ sep @ join sep (y # ys)"

fun ToString :: "FormValue \<Rightarrow> string" where
  "ToString (VString s) = s"
| "ToString (VNumber n) = Number_toString n"
| "ToString (VBoolean b) = (if b then ''true'' else ''false'')"
| "ToString VNull = ''null''"
| "ToString VUndefined = ''undefined''"
| "ToString (VArray a) = join '','' a"
| "ToString (VDate None) = ''Invalid Date''"

section \<open>The built-in predicates\<close>

text \<open>
  What a call can throw. The file reads \<open>isEmpty\<close> with its import commented out, so
  evaluating that identifier is a ReferenceError.
\<close>

datatype error = ReferenceError string | TypeError string

definition required :: "FormValue \<Rightarrow> error + bool" where
  "required v =
     (if isArray v then Inr (length (elements v) \<noteq> 0)
      else if v = VUndefined \<or> v = VNull then Inr False
      else if typeof v = ''boolean'' then Inr True
      else if instanceof_Date v then Inr (getTime v \<noteq> None)
      else if typeof v = ''object'' then Inl (ReferenceError ''isEmpty'')
      else Inr (length (ToString v) \<noteq> 0))"

subsection \<open>Regular expressions\<close>

text \<open>
  The fragment of the regular-expression language that \<open>emailRegex\<close> is written in:
  \<open>Fail\<close> matches no string and \<open>Empty\<close> the empty string only; \<open>Class\<close> is a
  character class, a list of code ranges with both ends included; \<open>Then\<close> is
  concatenation, \<open>Or\<close> is \<open>|\<close> and \<open>Many\<close> is \<open>*\<close>.
\<close>

datatype regex =
    Fail
  | Empty
  | Class "(nat \<times> nat) list"
  | Then regex regex
  | Or regex regex
  | Many regex

fun in_class :: "(nat \<times> nat) list \<Rightarrow> nat \<Rightarrow> bool" where
  "in_class [] c = False"
| "in_class (r # rs) c = ((fst r \<le> c \<and> c \<le> snd r) \<or> in_class rs c)"

text \<open>
  Under the \<open>i\<close> flag a character matches a class when the two agree up to case. All
  classes of \<open>emailRegex\<close> are ASCII, where case folding pairs A-Z with a-z and nothing
  else.
\<close>

definition other_case :: "nat \<Rightarrow> nat" where
  "other_case c =
     (if 65 \<le> c \<and> c \<le> 90 then c + 32 else if 97 \<le> c \<and> c \<le> 122 then c - 32 else c)"

definition class_test :: "(nat \<times> nat) list \<Rightarrow> char \<Rightarrow> bool" where
  "class_test rs ch = (in_class rs (of_char ch) \<or> in_class rs (other_case (of_char ch)))"

fun accepts_empty :: "regex \<Rightarrow> bool" where
  "accepts_empty Fail = False"
| "accepts_empty Empty = True"
| "accepts_empty (Class rs) = False"
| "accepts_empty (Then r s) = (accepts_empty r \<and> accepts_empty s)"
| "accepts_empty (Or r s) = (accepts_empty r \<or> accepts_empty s)"
| "accepts_empty (Many r) = True"

text \<open>\<open>after ch r\<close> matches what \<open>r\<close> matches after a leading \<open>ch\<close>.\<close>

fun after :: "char \<Rightarrow> regex \<Rightarrow> regex" where
  "after ch Fail = Fail"
| "after ch Empty = Fail"
| "after ch (Class rs) = (if class_test rs ch then Empty else Fail)"
| "after ch (Then r s) =
     (if accepts_empty r then Or (Then (after ch r) s) (after ch s) else Then (after ch r) s)"
| "after ch (Or r s) = Or (after ch r) (after ch s)"
| "after ch (Many r) = Then (after ch r) (Many r)"

text \<open>
  \<open>regex.test(s)\<close> for a pattern anchored at both ends (\<open>^...$\<close>, no \<open>m\<close> or \<open>g\<close>
  flag): the whole of \<open>s\<close> matches.
\<close>

definition test :: "regex \<Rightarrow> string \<Rightarrow> bool" where
  "test r s = accepts_empty (fold after s r)"

definition rng :: "char \<Rightarrow> char \<Rightarrow> nat \<times> nat" where
  "rng lo hi = (of_char lo, of_char hi)"

definition one :: "char \<Rightarrow> nat \<times> nat" where
  "one ch = (of_char ch, of_char ch)"

definition lit :: "char \<Rightarrow> regex" where
  "lit ch = Class [one ch]"

definition some :: "regex \<Rightarrow> regex" where
  "some r = Then r (Many r)"

definition maybe :: "regex \<Rightarrow> regex" where
  "maybe r = Or r Empty"

subsection \<open>The email pattern\<close>

text \<open>\<open>[A-z0-9!#$%&'*+/=?^_`{|}~-]\<close>, the quote and the backquote by their codes.\<close>

definition atext :: regex where
  "atext =
     Class ([rng CHR ''A'' CHR ''z'', rng CHR ''0'' CHR ''9'']
       @ map one ''!#$%&'' @ [(0x27, 0x27)] @ map one ''*+/=?^_'' @ [(0x60, 0x60)]
       @ map one ''{|}~-'')"

text \<open>\<open>[A-z...]+(?:\.[A-z...]+)*\<close>\<close>

definition dot_atom :: regex where
  "dot_atom = Then (some atext) (Many (Then (lit CHR ''.'') (some atext)))"

text \<open>
  \<open>"(?:[\x01-\x08\x0b\x0c\x0e-\x1f\x21\x23-\x5b\x5d-\x7f]|[\x01-\x09\x0b\x0c\x0e-\x7f])*"\<close>
\<close>

definition quoted :: regex where
  "quoted =
     Then (Class [(0x22, 0x22)])
       (Then
          (Many
             (Or (Class [(0x01, 0x08), (0x0b, 0x0b), (0x0c, 0x0c), (0x0e, 0x1f), (0x21, 0x21),
                         (0x23, 0x5b), (0x5d, 0x7f)])
                 (Class [(0x01, 0x09), (0x0b, 0x0b), (0x0c, 0x0c), (0x0e, 0x7f)])))
          (Class [(0x22, 0x22)]))"

definition alnum :: regex where
  "alnum = Class [rng CHR ''a'' CHR ''z'', rng CHR ''0'' CHR ''9'']"

definition alnum_hyphen :: regex where
  "alnum_hyphen = Class [rng CHR ''a'' CHR ''z'', rng CHR ''0'' CHR ''9'', one CHR ''-'']"

text \<open>\<open>(?:[a-z0-9](?:[a-z0-9-]*[a-z0-9])?\.)+[a-z0-9]{2,}(?:[a-z0-9-]*[a-z0-9])?\<close>\<close>

definition domain :: regex where
  "domain =
     Then (some (Then alnum (Then (maybe (Then (Many alnum_hyphen) alnum)) (lit CHR ''.''))))
       (Then (Then alnum (Then alnum (Many alnum)))
          (maybe (Then (Many alnum_hyphen) alnum)))"

text \<open>\<open>25[0-5]|2[0-4][0-9]|[01]?[0-9][0-9]?\<close>\<close>

definition octet :: regex where
  "octet =
     Or (Then (lit CHR ''2'') (Then (lit CHR ''5'') (Class [rng CHR ''0'' CHR ''5''])))
       (Or (Then (lit CHR ''2'') (Then (Class [rng CHR ''0'' CHR ''4''])
                                     (Class [rng CHR ''0'' CHR ''9''])))
           (Then (maybe (Class [one CHR ''0'', one CHR ''1'']))
              (Then (Class [rng CHR ''0'' CHR ''9'']) (maybe (Class [rng CHR ''0'' CHR ''9''])))))"

text \<open>
  \<open>[a-z0-9-]*[a-z0-9]:(?:[\x01-\x08\x0b\x0c\x0e-\x1f\x21-\x5a\x53-\x7f]|\\[\x01-\x09\x0b\x0c\x0e-\x7f])+\<close>
\<close>

definition tagged :: regex where
  "tagged =
     Then (Many alnum_hyphen)
       (Then alnum
          (Then (lit CHR '':'')
             (some
                (Or (Class [(0x01, 0x08), (0x0b, 0x0b), (0x0c, 0x0c), (0x0e, 0x1f), (0x21, 0x5a),
                            (0x53, 0x7f)])
                    (Then (Class [(0x5c, 0x5c)])
                       (Class [(0x01, 0x09), (0x0b, 0x0b), (0x0c, 0x0c), (0x0e, 0x7f)]))))))"

text \<open>\<open>\[(?:(?:octet)\.){3}(?:octet|tagged)\]\<close>\<close>

definition address_literal :: regex where
  "address_literal =
     Then (lit CHR ''['')
       (Then (Then octet (lit CHR ''.''))
          (Then (Then octet (lit CHR ''.''))
             (Then (Then octet (lit CHR ''.''))
                (Then (Or octet tagged) (lit CHR '']'')))))"

definition emailRegex :: regex where
  "emailRegex = Then (Or dot_atom quoted) (Then (lit CHR ''@'') (Or domain address_literal))"

definition email :: "FormValue \<Rightarrow> bool" where
  "email v =
     (ToBoolean v \<and> typeof v = ''string''
      \<and> (case v of VString s \<Rightarrow> test emailRegex s | _ \<Rightarrow> False))"

section \<open>Rules, labels and the form description\<close>

text \<open>\<open>Validator = boolean | ((value?: FormValue) => boolean)\<close>\<close>

datatype Validator = Flag bool | Predicate "FormValue \<Rightarrow> bool"

text \<open>
  Objects are association lists of their own enumerable properties. The objects the
  caller passes are listed in the order \<open>Object.entries\<close> and \<open>Object.keys\<close> enumerate
  them; an object the code builds is listed in the order of the writes, and nothing
  below depends on the order of its keys. The three parts of the form description are
  what \<open>unref\<close> reads at the time of a call; a part left out is \<open>None\<close>.
\<close>

type_synonym FieldRules = "(string \<times> Validator) list"

type_synonym ErrorMap = "(string \<times> string option) list"

record FormValidation =
  form :: "(string \<times> FormValue) list option"
  labels :: "(string \<times> string) list option"
  rules :: "(string \<times> FieldRules) list option"

subsection \<open>Reading and writing properties of plain objects\<close>

text \<open>
  A plain object inherits the properties of \<open>Object.prototype\<close>. All of them are
  functions but \<open>__proto__\<close>, an accessor: its getter returns the prototype object, and
  its setter ignores every value that is neither an object nor null.
\<close>

definition Object_prototype_functions :: "string list" where
  "Object_prototype_functions =
     [''__defineGetter__'', ''__defineSetter__'', ''hasOwnProperty'', ''__lookupGetter__'',
      ''__lookupSetter__'', ''isPrototypeOf'', ''propertyIsEnumerable'', ''toString'',
      ''valueOf'', ''toLocaleString'']"

text \<open>
  The string form of the value a plain object inherits under a name, if it inherits one:
  \<open>[object Object]\<close> for the prototype object and, for a built-in function, its source
  text as Node prints it. The function under \<open>constructor\<close> is \<open>Object\<close>.
\<close>

definition native_function :: "string \<Rightarrow> string" where
  "native_function name = ''function '' @ name @ ''() { [native code] }''"

definition inherited :: "string \<Rightarrow> string option" where
  "inherited key =
     (if key = ''__proto__'' then Some ''[object Object]''
      else if key = ''constructor'' then Some (native_function ''Object'')
      else if key \<in> set Object_prototype_functions then Some (native_function key)
      else None)"

text \<open>
  \<open>obj[key] = value\<close> for a value that is a string or undefined. The write replaces the
  value of an own property and creates a property the object does not have, also under
  an inherited name, since the inherited functions are writable. The one exception is
  \<open>__proto__\<close> on an object with no own property of that name: the write runs the
  inherited setter, which stores nothing.
\<close>

definition setProperty :: "string \<Rightarrow> 'v \<Rightarrow> (string \<times> 'v) list \<Rightarrow> (string \<times> 'v) list" where
  "setProperty key v obj =
     (if key = ''__proto__'' \<and> map_of obj key = None then obj else AList.update key v obj)"

section \<open>Messages\<close>

datatype param = PString string | PNumber number

fun template :: "param option \<Rightarrow> string" where
  "template None = ''undefined''"
| "template (Some (PString s)) = s"
| "template (Some (PNumber n)) = Number_toString n"

text \<open>\<open>label || 'field'\<close>\<close>

fun label_or_field :: "string option \<Rightarrow> string" where
  "label_or_field None = ''field''"
| "label_or_field (Some l) = (if l \<noteq> [] then l else ''field'')"

definition getFieldErrorMessage :: "string option \<Rightarrow> string \<Rightarrow> param option \<Rightarrow> string" where
  "getFieldErrorMessage label errorType param =
     (if errorType = ''required'' then
        ''The '' @ label_or_field label @ '' is required''
      else if errorType = ''email'' then
        ''The '' @ label_or_field label @ '' must a valid email address.''
      else if errorType = ''numeric'' then
        ''The '' @ label_or_field label @ '' must be a valid number.''
      else if errorType = ''maxLength'' then
        ''The '' @ label_or_field label @ '' cannot have more than '' @ template param
          @ '' characters.''
      else if errorType = ''minLength'' then
        ''The '' @ label_or_field label @ '' must have '' @ template param
          @ '' or more characters.''
      else ''The '' @ label_or_field label @ '' is invalid'')"

section \<open>The controller\<close>

record FormState =
  errorMessages :: ErrorMap
  generalErrorMessage :: string
  isFormValid :: bool

text \<open>The state cells as \<open>useForm\<close> creates them.\<close>

definition useForm :: "FormValidation \<Rightarrow> FormState" where
  "useForm cfg = \<lparr>errorMessages = [], generalErrorMessage = '''', isFormValid = False\<rparr>"

definition setGenericError :: "string option \<Rightarrow> FormState \<Rightarrow> FormState" where
  "setGenericError message st =
     st\<lparr>generalErrorMessage := (case message of None \<Rightarrow> ''Error'' | Some m \<Rightarrow> m)\<rparr>"

definition resetError :: "FormState \<Rightarrow> FormState" where
  "resetError st = st\<lparr>errorMessages := [], generalErrorMessage := ''''\<rparr>"

subsection \<open>Injected errors\<close>

text \<open>A \<open>forEach\<close> whose callback may throw: the first throw ends the loop.\<close>

fun forEach :: "('a \<Rightarrow> 's \<Rightarrow> error + 's) \<Rightarrow> 'a list \<Rightarrow> 's \<Rightarrow> error + 's" where
  "forEach f [] acc = Inr acc"
| "forEach f (x # xs) acc = (case f x acc of Inl e \<Rightarrow> Inl e | Inr acc' \<Rightarrow> forEach f xs acc')"

text \<open>
  \<open>errorResult[error] = errors[error]!.join(', ')\<close>; reading \<open>join\<close> of a missing entry
  would be a TypeError.
\<close>

definition joinMessages ::
  "(string \<times> string list) list \<Rightarrow> string \<Rightarrow> ErrorMap \<Rightarrow> error + ErrorMap" where
  "joinMessages errors k errorResult =
     (case map_of errors k of
        None \<Rightarrow> Inl (TypeError ''join'')
      | Some messages \<Rightarrow> Inr (setProperty k (Some (join '', '' messages)) errorResult))"

definition setErrorMessage :: "(string \<times> string list) list \<Rightarrow> FormState \<Rightarrow> error + FormState" where
  "setErrorMessage errors st =
     (case forEach (joinMessages errors) (map fst errors) [] of
        Inl e \<Rightarrow> Inl e
      | Inr errorResult \<Rightarrow> Inr (st\<lparr>errorMessages := errorResult\<rparr>))"

subsection \<open>The validation pass\<close>

text \<open>\<open>!!fieldRules.required\<close>: a missing rule is falsy, a function is truthy.\<close>

fun rule_truthy :: "Validator option \<Rightarrow> bool" where
  "rule_truthy None = False"
| "rule_truthy (Some (Flag b)) = b"
| "rule_truthy (Some (Predicate p)) = True"

definition isFieldRequired :: "FieldRules \<Rightarrow> FormValue \<Rightarrow> bool" where
  "isFieldRequired fieldRules v =
     (case map_of fieldRules ''requiredIf'' of
        Some (Predicate requiredIf) \<Rightarrow> requiredIf v
      | _ \<Rightarrow> rule_truthy (map_of fieldRules ''required''))"

text \<open>
  \<open>(labelsName && key in labelsName && labelsName[key]) ? labelsName[key] : undefined\<close>.
  Both \<open>in\<close> and the read see inherited properties: for a key the labels do not have
  themselves but \<open>Object.prototype\<close> has, the label is the inherited value, which is
  truthy and reaches the message in its string form.
\<close>

definition label_of :: "(string \<times> string) list option \<Rightarrow> string \<Rightarrow> string option" where
  "label_of labelsName key =
     (case labelsName of
        None \<Rightarrow> None
      | Some ls \<Rightarrow>
          (case map_of ls key of
             None \<Rightarrow> inherited key
           | Some l \<Rightarrow> if l \<noteq> [] then Some l else None))"

text \<open>The truthiness of the local \<open>validationMessage\<close>, undefined until assigned.\<close>

fun pending :: "string option \<Rightarrow> bool" where
  "pending None = False"
| "pending (Some m) = (m \<noteq> [])"

text \<open>
  The body of the inner \<open>forEach\<close>, run for one rule entry of a field. It carries the
  local \<open>validationMessage\<close> of the field and the map \<open>validationMessages\<close>.
\<close>

definition forEachRule ::
  "(string \<times> string) list option \<Rightarrow> string \<Rightarrow> FormValue \<Rightarrow> FieldRules \<Rightarrow>
   string \<times> Validator \<Rightarrow> string option \<times> ErrorMap \<Rightarrow> string option \<times> ErrorMap" where
  "forEachRule labelsName key v fieldRules entry acc =
     (let ruleKey = fst entry; ruleValue = snd entry;
          validationMessage = fst acc; validationMessages = snd acc;
          fieldErrorMessage = getFieldErrorMessage (label_of labelsName key) ruleKey None
      in
        if (isFieldRequired fieldRules v \<and> \<not> ToBoolean v) \<or> pending validationMessage then
          (Some fieldErrorMessage, setProperty key (Some fieldErrorMessage) validationMessages)
        else if ruleKey \<in> set [''required'', ''requiredIf''] then acc
        else
          (case ruleValue of
             Predicate p \<Rightarrow>
               if \<not> p v then
                 (validationMessage, setProperty key validationMessage validationMessages)
               else acc
           | Flag b \<Rightarrow> acc))"

text \<open>
  \<open>(rulesList && rulesList[key] && key in rulesList) ? rulesList[key] : undefined\<close>.
  For a key the table does not have itself but inherits, the value read is a built-in
  function or the prototype object; it has no enumerable property, so the inner loop
  has no entry to run and the field comes out as one with no rule set.
\<close>

definition fieldRules_of :: "(string \<times> FieldRules) list option \<Rightarrow> string \<Rightarrow> FieldRules option" where
  "fieldRules_of rulesList key =
     (case rulesList of None \<Rightarrow> None | Some rl \<Rightarrow> map_of rl key)"

text \<open>The body of the outer \<open>forEach\<close>, run for one entry of the form.\<close>

definition forEachField ::
  "(string \<times> FieldRules) list option \<Rightarrow> (string \<times> string) list option \<Rightarrow>
   string \<times> FormValue \<Rightarrow> ErrorMap \<Rightarrow> ErrorMap" where
  "forEachField rulesList labelsName entry validationMessages =
     (case fieldRules_of rulesList (fst entry) of
        None \<Rightarrow> validationMessages
      | Some fieldRules \<Rightarrow>
          snd (fold (forEachRule labelsName (fst entry) (snd entry) fieldRules) fieldRules
                 (None, validationMessages)))"

text \<open>The map \<open>validationMessages\<close> as the pass has built it when both loops are done.\<close>

definition validationMessages :: "FormValidation \<Rightarrow> ErrorMap" where
  "validationMessages cfg =
     fold (forEachField (rules cfg) (labels cfg))
       (case form cfg of None \<Rightarrow> [] | Some formValue \<Rightarrow> formValue) []"

definition triggerFormValidationManual :: "FormValidation \<Rightarrow> FormState \<Rightarrow> FormState" where
  "triggerFormValidationManual cfg st =
     (let msgs = validationMessages cfg;
          valid = (length (map fst msgs) = 0)
      in st\<lparr>isFormValid := valid,
            errorMessages := (if \<not> valid then msgs else errorMessages st)\<rparr>)"

text \<open>
  A rule entry that writes its field into the map while no message is pending and the
  required test does not fire: a function-valued rule, not named \<open>required\<close> or
  \<open>requiredIf\<close>, that rejects the value.
\<close>

definition fails :: "FormValue \<Rightarrow> string \<times> Validator \<Rightarrow> bool" where
  "fails v entry =
     (fst entry \<notin> set [''required'', ''requiredIf'']
      \<and> (case snd entry of Predicate p \<Rightarrow> \<not> p v | Flag b \<Rightarrow> False))"

section \<open>The model at work\<close>

lemma replicate_five: "replicate 5 x = [x, x, x, x, x]"
  by (simp add: eval_nat_numeral)

lemma Number_toString_examples:
  "Number_toString (Finite False 123 3) = ''123''"
  "Number_toString (Finite True 5 0) = ''-0.5''"
  "Number_toString (Finite False 123456 3) = ''123.456''"
  "Number_toString (Finite False 1 22) = ''1e+21''"
  "Number_toString (Finite False 15 (- 6)) = ''1.5e-7''"
  "Number_toString (Finite False 1 (- 5)) = ''0.000001''"
  by (simp_all add: Number_toString_def decimal.simps digit_def Let_def replicate_five)

lemma getFieldErrorMessage_examples:
  "getFieldErrorMessage (Some ''Email'') ''required'' None = ''The Email is required''"
  "getFieldErrorMessage (Some '''') ''email'' None = ''The field must a valid email address.''"
  "getFieldErrorMessage None ''numeric'' None = ''The field must be a valid number.''"
  "getFieldErrorMessage None ''maxLength'' (Some (PNumber (Finite False 5 1)))
     = ''The field cannot have more than 5 characters.''"
  "getFieldErrorMessage None ''minLength'' None
     = ''The field must have undefined or more characters.''"
  "getFieldErrorMessage None ''requiredIf'' None = ''The field is invalid''"
  by (simp_all add: getFieldErrorMessage_def Number_toString_def decimal.simps digit_def)

lemma email_examples:
  "email (VString ''a@b.co'')"
  "email (VString ''John.Doe+tag@Example.COM'')"
  "email (VString ''x@[192.168.1.255]'')"
  "\<not> email (VString ''a@b.c'')"
  "\<not> email (VString ''a b@c.de'')"
  "\<not> email (VString '''')"
  by code_simp+

lemma required_label_example:
  "triggerFormValidationManual
     \<lparr>form = Some [(''email'', VString '''')], labels = Some [(''email'', ''Email'')],
      rules = Some [(''email'', [(''required'', Flag True)])]\<rparr>
     (useForm \<lparr>form = None, labels = None, rules = None\<rparr>)
   = \<lparr>errorMessages = [(''email'', Some ''The Email is required'')],
      generalErrorMessage = '''', isFormValid = False\<rparr>"
  by (simp add: triggerFormValidationManual_def validationMessages_def forEachField_def
      fieldRules_of_def forEachRule_def setProperty_def isFieldRequired_def useForm_def Let_def
      getFieldErrorMessage_def label_of_def)

section \<open>The state after construction\<close>

text \<open>
  C10. Right after construction the controller shows an empty error map, an empty
  form-level message and a validity flag that is false.
\<close>

theorem useForm_initial_state:
  "errorMessages (useForm cfg) = [] \<and> generalErrorMessage (useForm cfg) = ''''
   \<and> isFormValid (useForm cfg) = False"
  by (simp add: useForm_def)

section \<open>The built-in predicates are total\<close>

lemma decimal_nonempty: "decimal n \<noteq> []"
  by (subst decimal.simps) simp

lemma Number_toString_nonempty: "Number_toString x \<noteq> []"
  by (cases x) (auto simp: Number_toString_def Let_def decimal_nonempty)

lemma required_number: "required (VNumber n) = Inr True"
  by (simp add: required_def Number_toString_nonempty)

text \<open>
  C6. \<open>required\<close> is false on null and undefined; on an array it is false exactly when
  the array is empty; on a Date exactly when its time is NaN; on a boolean it is always
  true; on the values left, strings and numbers, it is false exactly when the string form
  of the value is empty.
\<close>

theorem required_cases:
  "required VNull = Inr False
   \<and> required VUndefined = Inr False
   \<and> required (VArray a) = Inr (a \<noteq> [])
   \<and> required (VDate t) = Inr (t \<noteq> None)
   \<and> required (VBoolean b) = Inr True
   \<and> required (VString s) = Inr (ToString (VString s) \<noteq> [])
   \<and> required (VNumber n) = Inr (ToString (VNumber n) \<noteq> [])"
  by (simp add: required_def)

text \<open>
  C7. On every form value \<open>required\<close> returns a boolean and throws nothing: the guard of
  its \<open>isEmpty\<close> branch holds for no form value. \<open>email\<close> returns a boolean on every form
  value: false on all but non-empty strings, the outcome of the pattern on those.
\<close>

theorem predicates_total:
  "(\<exists>b. required v = Inr b)
   \<and> required v \<noteq> Inl e
   \<and> \<not> (\<not> isArray v \<and> v \<noteq> VUndefined \<and> v \<noteq> VNull \<and> typeof v \<noteq> ''boolean''
          \<and> \<not> instanceof_Date v \<and> typeof v = ''object'')
   \<and> email v = (case v of VString s \<Rightarrow> s \<noteq> [] \<and> test emailRegex s | _ \<Rightarrow> False)"
  by (cases v) (auto simp: required_def email_def)

section \<open>The effective required state\<close>



section \<open>Property writes\<close>

lemma setProperty_keys: "fst ` set (setProperty k x obj) \<subseteq> insert k (fst ` set obj)"
  by (auto simp: setProperty_def dom_update)

lemma map_of_setProperty_other: "k \<noteq> key \<Longrightarrow> map_of (setProperty k x obj) key = map_of obj key"
  by (simp add: setProperty_def update_conv')

lemma setProperty_update: "k \<noteq> ''__proto__'' \<Longrightarrow> setProperty k x obj = AList.update k x obj"
  by (simp add: setProperty_def)

lemma setProperty_twice: "setProperty k y (setProperty k x obj) = setProperty k y obj"
  by (auto simp: setProperty_def update_conv')

lemma setProperty_proto:
  "map_of obj ''__proto__'' = None \<Longrightarrow> map_of (setProperty k x obj) ''__proto__'' = None"
  by (simp add: setProperty_def update_conv')

section \<open>The rules of one field\<close>

lemma fold_forEachRule_not_required:
  "\<not> (isFieldRequired fieldRules v \<and> \<not> ToBoolean v) \<Longrightarrow>
   fold (forEachRule labelsName key v fieldRules) rs (None, acc)
     = (None, if list_ex (fails v) rs then setProperty key None acc else acc)"
proof (induction rs arbitrary: acc)
  case Nil
  then show ?case by simp
next
  case (Cons r rs)
  have step: "forEachRule labelsName key v fieldRules r (None, acc)
                = (None, if fails v r then setProperty key None acc else acc)"
    using Cons.prems
    by (cases r) (auto simp: forEachRule_def fails_def Let_def split: Validator.splits)
  show ?case
    using Cons.IH [OF Cons.prems] by (simp add: step setProperty_twice)
qed

text \<open>
  When the required test fires, every rule entry overwrites the message with its own:
  the message left is the one of the last rule declared.
\<close>

lemma fold_forEachRule_required:
  "isFieldRequired fieldRules v \<and> \<not> ToBoolean v \<Longrightarrow> rs \<noteq> [] \<Longrightarrow>
   fold (forEachRule labelsName key v fieldRules) rs (m, acc)
     = (Some (getFieldErrorMessage (label_of labelsName key) (fst (last rs)) None),
        setProperty key
          (Some (getFieldErrorMessage (label_of labelsName key) (fst (last rs)) None)) acc)"
proof (induction rs arbitrary: m acc)
  case Nil
  then show ?case by simp
next
  case (Cons r rs)
  have step: "forEachRule labelsName key v fieldRules r (m, acc)
                = (Some (getFieldErrorMessage (label_of labelsName key) (fst r) None),
                   setProperty key
                     (Some (getFieldErrorMessage (label_of labelsName key) (fst r) None)) acc)"
    using Cons.prems(1) by (simp add: forEachRule_def Let_def)
  show ?case
  proof (cases "rs = []")
    case True
    then show ?thesis by (simp add: step)
  next
    case False
    then show ?thesis
      using Cons.IH [OF Cons.prems(1) False] by (simp add: step setProperty_twice)
  qed
qed

lemma forEachField_required_falsy:
  assumes "fieldRules_of rulesList key = Some fieldRules"
    and "isFieldRequired fieldRules v" and "\<not> ToBoolean v"
  shows "forEachField rulesList labelsName (key, v) acc
         = setProperty key
             (Some (getFieldErrorMessage (label_of labelsName key) (fst (last fieldRules)) None))
             acc"
proof -
  have "fieldRules \<noteq> []"
    using assms(2) by (auto simp: isFieldRequired_def)
  then show ?thesis
    using assms by (simp add: forEachField_def fold_forEachRule_required)
qed

lemma forEachRule_keys:
  "fst ` set (snd (forEachRule labelsName k v fieldRules r acc)) \<subseteq> insert k (fst ` set (snd acc))"
  using setProperty_keys [of k _ "snd acc"]
  by (auto simp: forEachRule_def Let_def split: Validator.splits)

lemma fold_forEachRule_keys:
  "fst ` set (snd (fold (forEachRule labelsName k v fieldRules) rs acc))
     \<subseteq> insert k (fst ` set (snd acc))"
proof (induction rs arbitrary: acc)
  case Nil
  then show ?case by auto
next
  case (Cons r rs)
  show ?case
    using Cons.IH [of "forEachRule labelsName k v fieldRules r acc"]
      forEachRule_keys [of labelsName k v fieldRules r acc]
    by auto
qed

lemma forEachRule_other:
  "k \<noteq> key \<Longrightarrow>
   map_of (snd (forEachRule labelsName k v fieldRules r acc)) key = map_of (snd acc) key"
  by (auto simp: forEachRule_def Let_def map_of_setProperty_other split: Validator.splits)

lemma fold_forEachRule_other:
  "k \<noteq> key \<Longrightarrow>
   map_of (snd (fold (forEachRule labelsName k v fieldRules) rs acc)) key = map_of (snd acc) key"
  by (induction rs arbitrary: acc) (simp_all add: forEachRule_other)

section \<open>The fields of the form\<close>

lemma forEachField_keys:
  "fst ` set (forEachField rulesList labelsName entry acc)
     \<subseteq> (case fieldRules_of rulesList (fst entry) of None \<Rightarrow> {} | Some fr \<Rightarrow> {fst entry})
        \<union> fst ` set acc"
  using fold_forEachRule_keys [of labelsName "fst entry" "snd entry" _ _ "(None, acc)"]
  by (auto simp: forEachField_def split: option.splits)

lemma forEachField_other:
  "fst entry \<noteq> key \<Longrightarrow>
   map_of (forEachField rulesList labelsName entry acc) key = map_of acc key"
  by (simp add: forEachField_def fold_forEachRule_other split: option.splits)

lemma fold_forEachField_other:
  "key \<notin> fst ` set entries \<Longrightarrow>
   map_of (fold (forEachField rulesList labelsName) entries acc) key = map_of acc key"
  by (induction entries arbitrary: acc) (auto simp: forEachField_other)

lemma fold_forEachField_no_rules:
  "fieldRules_of rulesList key = None \<Longrightarrow> key \<notin> fst ` set acc \<Longrightarrow>
   key \<notin> fst ` set (fold (forEachField rulesList labelsName) entries acc)"
proof (induction entries arbitrary: acc)
  case Nil
  then show ?case by simp
next
  case (Cons e es)
  have "key \<notin> fst ` set (forEachField rulesList labelsName e acc)"
  proof (cases "fst e = key")
    case True
    then show ?thesis using Cons.prems by (simp add: forEachField_def)
  next
    case False
    then show ?thesis
      using Cons.prems(2) forEachField_keys [of rulesList labelsName e acc]
      by (auto split: option.splits)
  qed
  then show ?case using Cons.IH [OF Cons.prems(1)] by simp
qed

lemma validationMessages_no_rules:
  "fieldRules_of (rules cfg) key = None \<Longrightarrow> key \<notin> fst ` set (validationMessages cfg)"
  using fold_forEachField_no_rules [of "rules cfg" key "[]"]
  by (simp add: validationMessages_def)

lemma validationMessages_no_table: "rules cfg = None \<Longrightarrow> validationMessages cfg = []"
proof -
  assume r: "rules cfg = None"
  have "\<And>key. key \<notin> fst ` set (validationMessages cfg)"
    using r by (intro validationMessages_no_rules) (simp add: fieldRules_of_def)
  then show ?thesis by (cases "validationMessages cfg") auto
qed

section \<open>The validation pass\<close>

text \<open>
  C4. A pass sets the validity flag to true exactly when the map it has rebuilt is empty.
  It replaces the visible error messages by the rebuilt map when the form is invalid and
  leaves them as they were (injected ones included) when the form is valid; the
  form-level message is not touched.
\<close>

theorem validation_pass_frame:
  "isFormValid (triggerFormValidationManual cfg st) = (validationMessages cfg = [])
   \<and> errorMessages (triggerFormValidationManual cfg st)
       = (if validationMessages cfg = [] then errorMessages st else validationMessages cfg)
   \<and> generalErrorMessage (triggerFormValidationManual cfg st) = generalErrorMessage st"
  by (simp add: triggerFormValidationManual_def Let_def)

text \<open>
  An injected error survives a pass that finds the form valid, and is replaced by a pass
  that finds it invalid.
\<close>

theorem validation_pass_frame_witness:
  "triggerFormValidationManual
     \<lparr>form = Some [(''name'', VString ''x'')], labels = None,
      rules = Some [(''name'', [(''required'', Flag True)])]\<rparr>
     \<lparr>errorMessages = [(''name'', Some ''taken'')], generalErrorMessage = '''',
      isFormValid = False\<rparr>
   = \<lparr>errorMessages = [(''name'', Some ''taken'')], generalErrorMessage = '''',
      isFormValid = True\<rparr>
   \<and> triggerFormValidationManual
     \<lparr>form = Some [(''name'', VString '''')], labels = None,
      rules = Some [(''name'', [(''required'', Flag True)])]\<rparr>
     \<lparr>errorMessages = [(''name'', Some ''taken'')], generalErrorMessage = '''',
      isFormValid = False\<rparr>
   = \<lparr>errorMessages = [(''name'', Some ''The field is required'')],
      generalErrorMessage = '''', isFormValid = False\<rparr>"
proof -
  have valid: "validationMessages
     \<lparr>form = Some [(''name'', VString ''x'')], labels = None,
      rules = Some [(''name'', [(''required'', Flag True)])]\<rparr> = []"
    by (simp add: validationMessages_def forEachField_def fieldRules_of_def forEachRule_def setProperty_def
        isFieldRequired_def Let_def)
  have invalid: "validationMessages
     \<lparr>form = Some [(''name'', VString '''')], labels = None,
      rules = Some [(''name'', [(''required'', Flag True)])]\<rparr>
     = [(''name'', Some ''The field is required'')]"
    by (simp add: validationMessages_def forEachField_def fieldRules_of_def forEachRule_def setProperty_def
        isFieldRequired_def Let_def getFieldErrorMessage_def label_of_def)
  show ?thesis
    using
      validation_pass_frame
        [of "\<lparr>form = Some [(''name'', VString ''x'')], labels = None,
               rules = Some [(''name'', [(''required'', Flag True)])]\<rparr>"
            "\<lparr>errorMessages = [(''name'', Some ''taken'')], generalErrorMessage = '''',
              isFormValid = False\<rparr>"]
      validation_pass_frame
        [of "\<lparr>form = Some [(''name'', VString '''')], labels = None,
               rules = Some [(''name'', [(''required'', Flag True)])]\<rparr>"
            "\<lparr>errorMessages = [(''name'', Some ''taken'')], generalErrorMessage = '''',
              isFormValid = False\<rparr>"]
    by (simp add: valid invalid FormState.equality)
qed

text \<open>
  C5. With the values, rules and labels unchanged, a second pass right after the first
  leaves the state of the first: the same error map and the same validity flag.
\<close>

theorem triggerFormValidationManual_idempotent:
  "triggerFormValidationManual cfg (triggerFormValidationManual cfg st)
     = triggerFormValidationManual cfg st"
  by (simp add: triggerFormValidationManual_def Let_def)

text \<open>
  C8. A field with no entry in the rules table is never in the map a pass rebuilds, so a
  pass never adds it to the visible error messages, whatever its value. With no rules
  table at all, a pass on a fresh controller ends with the validity flag true and the
  error map empty.
\<close>

theorem unruled_field_never_reported:
  "(fieldRules_of (rules cfg) key = None \<longrightarrow>
      key \<notin> fst ` set (validationMessages cfg)
      \<and> (key \<in> fst ` set (errorMessages (triggerFormValidationManual cfg st))
           \<longrightarrow> key \<in> fst ` set (errorMessages st)))
   \<and> (rules cfg = None \<longrightarrow>
      isFormValid (triggerFormValidationManual cfg (useForm cfg)) = True
      \<and> errorMessages (triggerFormValidationManual cfg (useForm cfg)) = [])"
proof (intro conjI impI)
  assume h: "fieldRules_of (rules cfg) key = None"
  show "key \<notin> fst ` set (validationMessages cfg)"
    by (rule validationMessages_no_rules [OF h])
  then show "key \<in> fst ` set (errorMessages st)"
    if "key \<in> fst ` set (errorMessages (triggerFormValidationManual cfg st))"
    using that by (simp add: triggerFormValidationManual_def Let_def split: if_splits)
next
  assume r: "rules cfg = None"
  show "isFormValid (triggerFormValidationManual cfg (useForm cfg)) = True"
    by (simp add: triggerFormValidationManual_def Let_def validationMessages_no_table [OF r])
  show "errorMessages (triggerFormValidationManual cfg (useForm cfg)) = []"
    by (simp add: triggerFormValidationManual_def Let_def validationMessages_no_table [OF r]
        useForm_def)
qed

text \<open>
  The value \<open>{name: "x"}\<close> with no rules table is valid with an empty error map; an
  empty \<open>name\<close> without rules stays unreported beside a required \<open>email\<close> that fails;
  and where \<open>name\<close> is in the visible error map after a pass, it was injected before.
\<close>

theorem unruled_field_never_reported_witness:
  "isFormValid (triggerFormValidationManual
      \<lparr>form = Some [(''name'', VString ''x'')], labels = None, rules = None\<rparr>
      (useForm \<lparr>form = Some [(''name'', VString ''x'')], labels = None, rules = None\<rparr>)) = True
   \<and> errorMessages (triggerFormValidationManual
      \<lparr>form = Some [(''name'', VString ''x'')], labels = None, rules = None\<rparr>
      (useForm \<lparr>form = Some [(''name'', VString ''x'')], labels = None, rules = None\<rparr>)) = []
   \<and> ''name'' \<notin> fst ` set (validationMessages
      \<lparr>form = Some [(''name'', VString ''''), (''email'', VString '''')], labels = None,
       rules = Some [(''email'', [(''required'', Flag True)])]\<rparr>)
   \<and> ''name'' \<in> fst ` set (errorMessages (triggerFormValidationManual
      \<lparr>form = Some [(''name'', VString '''')], labels = None, rules = None\<rparr>
      \<lparr>errorMessages = [(''name'', Some ''taken'')], generalErrorMessage = '''',
       isFormValid = False\<rparr>))
   \<and> ''name'' \<in> fst ` set (errorMessages
      \<lparr>errorMessages = [(''name'', Some ''taken'')], generalErrorMessage = '''',
       isFormValid = False\<rparr>)"
proof -
  have valid: "validationMessages
      \<lparr>form = Some [(''name'', VString '''')], labels = None, rules = None\<rparr> = []"
    by (simp add: validationMessages_def forEachField_def fieldRules_of_def)
  show ?thesis
    using
      unruled_field_never_reported
        [of "\<lparr>form = Some [(''name'', VString ''x'')], labels = None, rules = None\<rparr>"
            "''name''"
            "useForm \<lparr>form = Some [(''name'', VString ''x'')], labels = None, rules = None\<rparr>"]
      unruled_field_never_reported
        [of "\<lparr>form = Some [(''name'', VString ''''), (''email'', VString '''')],
               labels = None, rules = Some [(''email'', [(''required'', Flag True)])]\<rparr>"
            "''name''" "useForm \<lparr>form = None, labels = None, rules = None\<rparr>"]
      unruled_field_never_reported
        [of "\<lparr>form = Some [(''name'', VString '''')], labels = None, rules = None\<rparr>"
            "''name''"
            "\<lparr>errorMessages = [(''name'', Some ''taken'')], generalErrorMessage = '''',
              isFormValid = False\<rparr>"]
    by (simp add: fieldRules_of_def triggerFormValidationManual_def valid)
qed

section \<open>Which message a failing field gets\<close>

lemma required_falsy_message_is_last_rule:
  assumes "form cfg = Some formValue"
    and "distinct (map fst formValue)"
    and "(key, v) \<in> set formValue"
    and "key \<noteq> ''__proto__''"
    and "fieldRules_of (rules cfg) key = Some fieldRules"
    and "isFieldRequired fieldRules v" and "\<not> ToBoolean v"
  shows "isFormValid (triggerFormValidationManual cfg st) = False
         \<and> map_of (errorMessages (triggerFormValidationManual cfg st)) key
             = Some (Some (getFieldErrorMessage (label_of (labels cfg) key)
                             (fst (last fieldRules)) None))"
proof -
  obtain xs ys where split: "formValue = xs @ (key, v) # ys"
    using assms(3) by (auto simp: in_set_conv_decomp)
  have notin: "key \<notin> fst ` set ys"
    using assms(2) by (auto simp: split)
  have "map_of (validationMessages cfg) key
          = Some (Some (getFieldErrorMessage (label_of (labels cfg) key)
                          (fst (last fieldRules)) None))"
    by (simp add: validationMessages_def assms(1) split
        forEachField_required_falsy [OF assms(5-7)] setProperty_update [OF assms(4)]
        fold_forEachField_other [OF notin] update_conv')
  then show ?thesis
    by (auto simp: triggerFormValidationManual_def Let_def)
qed

text \<open>
  C1. The field \<open>email\<close> is required (\<open>required: true\<close>, no \<open>requiredIf\<close>) and its value
  is the empty string, so the message wanted is the required one, "The field is
  required". With an \<open>email\<close> rule declared after \<open>required\<close>, the pass stores the email
  rule's message instead.
\<close>

theorem required_message_replaced_by_last_rule:
  "isFieldRequired [(''required'', Flag True), (''email'', Predicate email)] (VString '''')
   \<and> \<not> ToBoolean (VString '''')
   \<and> getFieldErrorMessage None ''required'' None = ''The field is required''
   \<and> triggerFormValidationManual
        \<lparr>form = Some [(''email'', VString '''')], labels = None,
         rules = Some [(''email'', [(''required'', Flag True), (''email'', Predicate email)])]\<rparr>
        (useForm \<lparr>form = None, labels = None, rules = None\<rparr>)
      = \<lparr>errorMessages = [(''email'', Some ''The field must a valid email address.'')],
         generalErrorMessage = '''', isFormValid = False\<rparr>"
  by (simp add: triggerFormValidationManual_def validationMessages_def forEachField_def
      fieldRules_of_def forEachRule_def setProperty_def isFieldRequired_def useForm_def Let_def
      getFieldErrorMessage_def label_of_def)

text \<open>
  C2, as amended. Take a field of the form, not named \<open>__proto__\<close> (the form's keys being
  distinct, as an object's are), that is not effectively required and whose rule set
  holds a function-valued rule, named neither \<open>required\<close> nor \<open>requiredIf\<close>, that returns
  false on the field's value. Then a pass reports the form invalid, and the field is in
  the error map with the message variable as it was pending, which is undefined: no
  message is formatted for the failing rule.
\<close>

theorem failing_predicate_reported:
  assumes "form cfg = Some formValue"
    and "distinct (map fst formValue)"
    and "(key, v) \<in> set formValue"
    and "key \<noteq> ''__proto__''"
    and "fieldRules_of (rules cfg) key = Some fieldRules"
    and "\<not> isFieldRequired fieldRules v"
    and "(ruleKey, Predicate p) \<in> set fieldRules"
    and "ruleKey \<noteq> ''required''" and "ruleKey \<noteq> ''requiredIf''"
    and "\<not> p v"
  shows "isFormValid (triggerFormValidationManual cfg st) = False
         \<and> map_of (errorMessages (triggerFormValidationManual cfg st)) key = Some None"
proof -
  obtain xs ys where split: "formValue = xs @ (key, v) # ys"
    using assms(3) by (auto simp: in_set_conv_decomp)
  have notin: "key \<notin> fst ` set ys"
    using assms(2) by (auto simp: split)
  have ex: "list_ex (fails v) fieldRules"
    using assms(7-10) by (force simp: list_ex_iff fails_def)
  have field: "forEachField (rules cfg) (labels cfg) (key, v) acc = AList.update key None acc"
    for acc
    using assms(5,6) ex
    by (simp add: forEachField_def fold_forEachRule_not_required setProperty_update [OF assms(4)])
  have "map_of (validationMessages cfg) key = Some None"
    by (simp add: validationMessages_def assms(1) split field
        fold_forEachField_other [OF notin] update_conv')
  then show ?thesis
    by (auto simp: triggerFormValidationManual_def Let_def)
qed

text \<open>
  The value \<open>{age: "abc", name: ""}\<close> with the one rule \<open>numeric\<close> on \<open>age\<close>, a predicate
  that rejects \<open>"abc"\<close>: the form is invalid and \<open>age\<close> is in the error map, its message
  undefined.
\<close>

theorem failing_predicate_reported_witness:
  "isFormValid (triggerFormValidationManual
      \<lparr>form = Some [(''age'', VString ''abc''), (''name'', VString '''')], labels = None,
       rules = Some [(''age'', [(''numeric'', Predicate email)])]\<rparr>
      (useForm \<lparr>form = None, labels = None, rules = None\<rparr>)) = False
   \<and> map_of (errorMessages (triggerFormValidationManual
      \<lparr>form = Some [(''age'', VString ''abc''), (''name'', VString '''')], labels = None,
       rules = Some [(''age'', [(''numeric'', Predicate email)])]\<rparr>
      (useForm \<lparr>form = None, labels = None, rules = None\<rparr>))) ''age'' = Some None"
proof -
  have e: "\<not> email (VString ''abc'')"
    by code_simp
  show ?thesis
    using failing_predicate_reported
      [of "\<lparr>form = Some [(''age'', VString ''abc''), (''name'', VString '''')], labels = None,
             rules = Some [(''age'', [(''numeric'', Predicate email)])]\<rparr>"
          "[(''age'', VString ''abc''), (''name'', VString '''')]" "''age''" "VString ''abc''"
          "[(''numeric'', Predicate email)]" "''numeric''" email
          "useForm \<lparr>form = None, labels = None, rules = None\<rparr>"]
      e
    by (simp add: fieldRules_of_def isFieldRequired_def)
qed

text \<open>
  C2 as stated fails at two inputs. First, when the function-valued rule is \<open>requiredIf\<close>
  itself: the rule set \<open>{requiredIf: email}\<close> on the value \<open>"abc"\<close> holds a
  function-valued rule that returns false, and the field is not effectively required;
  the pass skips the rule by its name and reports the form valid, with an empty error
  map. Second, when the field is an own property named \<open>__proto__\<close>: its \<open>numeric\<close> rule
  rejects \<open>"abc"\<close>, but the write to the error map under that name stores nothing, and
  the form is reported valid.
\<close>

theorem requiredIf_predicate_not_reported:
  "\<not> isFieldRequired [(''requiredIf'', Predicate email)] (VString ''abc'')
   \<and> (''requiredIf'', Predicate email) \<in> set [(''requiredIf'', Predicate email)]
   \<and> \<not> email (VString ''abc'')
   \<and> isFormValid (triggerFormValidationManual
        \<lparr>form = Some [(''age'', VString ''abc'')], labels = None,
         rules = Some [(''age'', [(''requiredIf'', Predicate email)])]\<rparr>
        (useForm \<lparr>form = None, labels = None, rules = None\<rparr>)) = True
   \<and> errorMessages (triggerFormValidationManual
        \<lparr>form = Some [(''age'', VString ''abc'')], labels = None,
         rules = Some [(''age'', [(''requiredIf'', Predicate email)])]\<rparr>
        (useForm \<lparr>form = None, labels = None, rules = None\<rparr>)) = []
   \<and> \<not> isFieldRequired [(''numeric'', Predicate email)] (VString ''abc'')
   \<and> (''numeric'', Predicate email) \<in> set [(''numeric'', Predicate email)]
   \<and> isFormValid (triggerFormValidationManual
        \<lparr>form = Some [(''__proto__'', VString ''abc'')], labels = None,
         rules = Some [(''__proto__'', [(''numeric'', Predicate email)])]\<rparr>
        (useForm \<lparr>form = None, labels = None, rules = None\<rparr>)) = True
   \<and> errorMessages (triggerFormValidationManual
        \<lparr>form = Some [(''__proto__'', VString ''abc'')], labels = None,
         rules = Some [(''__proto__'', [(''numeric'', Predicate email)])]\<rparr>
        (useForm \<lparr>form = None, labels = None, rules = None\<rparr>)) = []"
proof -
  have e: "\<not> email (VString ''abc'')"
    by code_simp
  show ?thesis
    using e
    by (simp add: triggerFormValidationManual_def validationMessages_def forEachField_def
        fieldRules_of_def forEachRule_def setProperty_def isFieldRequired_def useForm_def Let_def)
qed

section \<open>Injected errors\<close>

lemma forEach_joinMessages:
  "set ks \<subseteq> fst ` set errors \<Longrightarrow> map_of acc ''__proto__'' = None \<Longrightarrow>
   \<exists>res. forEach (joinMessages errors) ks acc = Inr res
     \<and> map_of res = (\<lambda>k. if k \<in> set ks \<and> k \<noteq> ''__proto__''
          then map_option (\<lambda>messages. Some (join '', '' messages)) (map_of errors k)
          else map_of acc k)"
proof (induction ks arbitrary: acc)
  case Nil
  then show ?case by simp
next
  case (Cons k ks)
  from Cons.prems(1) obtain messages where m: "map_of errors k = Some messages"
    by (cases "map_of errors k") (auto simp: map_of_eq_None_iff)
  from Cons.prems(1) have sub: "set ks \<subseteq> fst ` set errors"
    by simp
  let ?acc = "setProperty k (Some (join '', '' messages)) acc"
  have proto: "map_of ?acc ''__proto__'' = None"
    by (rule setProperty_proto [OF Cons.prems(2)])
  obtain res where res: "forEach (joinMessages errors) ks ?acc = Inr res"
    and mres: "map_of res = (\<lambda>j. if j \<in> set ks \<and> j \<noteq> ''__proto__''
          then map_option (\<lambda>messages. Some (join '', '' messages)) (map_of errors j)
          else map_of ?acc j)"
    using Cons.IH [OF sub proto] by blast
  have "forEach (joinMessages errors) (k # ks) acc = Inr res"
    by (simp add: joinMessages_def m res)
  moreover have "map_of res = (\<lambda>j. if j \<in> set (k # ks) \<and> j \<noteq> ''__proto__''
          then map_option (\<lambda>messages. Some (join '', '' messages)) (map_of errors j)
          else map_of acc j)"
  proof (rule ext)
    fix j
    show "map_of res j = (if j \<in> set (k # ks) \<and> j \<noteq> ''__proto__''
          then map_option (\<lambda>messages. Some (join '', '' messages)) (map_of errors j)
          else map_of acc j)"
      using Cons.prems(2) by (auto simp: mres setProperty_def update_conv' m)
  qed
  ultimately show ?case by blast
qed

text \<open>
  C9, as amended. For every injected map, \<open>setErrorMessage\<close> returns normally and stores,
  for each field of the map not named \<open>__proto__\<close>, the field's messages joined with
  \<open>", "\<close> as the one display string of the field; it stores nothing under \<open>__proto__\<close>
  and nothing for a field the map does not have; the form-level message and the validity
  flag stay as they were.
\<close>

theorem setErrorMessage_joins:
  "\<exists>st'. setErrorMessage errors st = Inr st'
     \<and> map_of (errorMessages st')
         = (\<lambda>k. if k = ''__proto__'' then None
                else map_option (\<lambda>messages. Some (join '', '' messages)) (map_of errors k))
     \<and> generalErrorMessage st' = generalErrorMessage st
     \<and> isFormValid st' = isFormValid st"
proof -
  obtain res where res: "forEach (joinMessages errors) (map fst errors) [] = Inr res"
    and mres: "map_of res = (\<lambda>k. if k \<in> set (map fst errors) \<and> k \<noteq> ''__proto__''
          then map_option (\<lambda>messages. Some (join '', '' messages)) (map_of errors k)
          else map_of [] k)"
    using forEach_joinMessages [of "map fst errors" errors "[]"] by auto
  have "map_of res = (\<lambda>k. if k = ''__proto__'' then None
          else map_option (\<lambda>messages. Some (join '', '' messages)) (map_of errors k))"
    by (rule ext) (auto simp: mres map_of_eq_None_iff)
  then show ?thesis
    by (simp add: setErrorMessage_def res)
qed

text \<open>Injecting \<open>{email: ["bad", "taken"]}\<close> makes the message of \<open>email\<close> "bad, taken".\<close>

theorem setErrorMessage_joins_witness:
  "\<exists>st'. setErrorMessage [(''email'', [''bad'', ''taken''])]
            (useForm \<lparr>form = None, labels = None, rules = None\<rparr>) = Inr st'
     \<and> map_of (errorMessages st') ''email'' = Some (Some ''bad, taken'')"
  using setErrorMessage_joins [of "[(''email'', [''bad'', ''taken''])]"
      "useForm \<lparr>form = None, labels = None, rules = None\<rparr>"]
  by auto

text \<open>
  C9 as stated fails for a field that is an own property named \<open>__proto__\<close>, as
  \<open>JSON.parse\<close> creates it: the injected map has the field with two messages, and the
  error map stored is empty.
\<close>

theorem setErrorMessage_proto_not_stored:
  "map_of [(''__proto__'', [''bad'', ''taken''])] ''__proto__'' = Some [''bad'', ''taken'']
   \<and> setErrorMessage [(''__proto__'', [''bad'', ''taken''])]
        \<lparr>errorMessages = [(''email'', Some ''old'')], generalErrorMessage = '''',
         isFormValid = False\<rparr>
      = Inr \<lparr>errorMessages = [], generalErrorMessage = '''', isFormValid = False\<rparr>"
  by (simp add: setErrorMessage_def joinMessages_def setProperty_def)

lemma inherited_label_example:
  "triggerFormValidationManual
     \<lparr>form = Some [(''constructor'', VString '''')], labels = Some [(''email'', ''Email'')],
      rules = Some [(''constructor'', [(''required'', Flag True)])]\<rparr>
     (useForm \<lparr>form = None, labels = None, rules = None\<rparr>)
   = \<lparr>errorMessages =
        [(''constructor'', Some ''The function Object() { [native code] } is required'')],
      generalErrorMessage = '''', isFormValid = False\<rparr>"
  by (simp add: triggerFormValidationManual_def validationMessages_def forEachField_def
      fieldRules_of_def forEachRule_def setProperty_def isFieldRequired_def useForm_def Let_def
      getFieldErrorMessage_def label_of_def inherited_def native_function_def)

end
